theory Spec2Isabelle
  imports Complex_Main "HOL-Library.Char_ord" "HOL-Library.List_Lexorder"
begin

section \<open>JavaScript values\<close>

text \<open>
  The library is TypeScript. Values typed \<open>any\<close> or \<open>unknown\<close> in the source (request data,
  parameter values, caught errors) are modelled by one universe of JavaScript values.
  Numbers inside these values, status codes and durations are integers; a timeout, whose
  truthiness the fetcher tests, is a \<open>js_number\<close> below. \<open>PROBLEM_CODE\<close> is the enumeration the source imports from
  the HTTP helper package; the README lists its members.
\<close>

datatype PROBLEM_CODE =
  NONE | CLIENT_ERROR | SERVER_ERROR | TIMEOUT_ERROR
  | CONNECTION_ERROR | NETWORK_ERROR | CANCEL_ERROR | UNKNOWN_ERROR

datatype jsval =
    JUndefined
  | JNull
  | JBool bool
  | JNum int
  | JStr string
  | JArr "jsval list"
  | JObj "(string \<times> jsval) list"
  | JError js_error
  | JResponse SWRKitResponse
and js_error =
  Error (name: string) (message: string) (err_problem: "PROBLEM_CODE option")
    (err_response: "SWRKitResponse option") (err_status: "int option")
and SWRKitResponse =
  SWRKitResponse (ok: bool) (problem: "PROBLEM_CODE option") (originalError: "js_error option")
    (data: jsval) (status: "int option") (headers: "(string \<times> string) list option")
    (duration: "int option")

text \<open>JavaScript truthiness: what \<open>!x\<close>, \<open>x || y\<close> and \<open>if (x)\<close> test.\<close>

fun truthy :: "jsval \<Rightarrow> bool" where
  "truthy JUndefined = False"
| "truthy JNull = False"
| "truthy (JBool b) = b"
| "truthy (JNum n) = (n \<noteq> 0)"
| "truthy (JStr s) = (s \<noteq> [])"
| "truthy (JArr _) = True"
| "truthy (JObj _) = True"
| "truthy (JError _) = True"
| "truthy (JResponse _) = True"

text \<open>
  A JavaScript number where its truthiness matters: \<open>NaN\<close>, the two infinities, or a
  finite value. Both zeros are \<open>Finite 0\<close>. \<open>0\<close> and \<open>NaN\<close> are the falsy numbers.
\<close>

datatype js_number = NaN | PosInfinity | NegInfinity | Finite real

fun truthy_number :: "js_number \<Rightarrow> bool" where
  "truthy_number NaN = False"
| "truthy_number PosInfinity = True"
| "truthy_number NegInfinity = True"
| "truthy_number (Finite x) = (x \<noteq> 0)"

text \<open>
  Reading the property \<open>response\<close> with optional chaining, \<open>error?.response\<close>: \<open>undefined\<close>
  on \<open>null\<close> and \<open>undefined\<close>, the own property on an object, \<open>undefined\<close> on a value
  that has no such property.
\<close>

fun read_response :: "jsval \<Rightarrow> jsval" where
  "read_response (JError e) =
     (case err_response e of None \<Rightarrow> JUndefined | Some r \<Rightarrow> JResponse r)"
| "read_response (JObj fs) =
     (case map_of fs ''response'' of None \<Rightarrow> JUndefined | Some v \<Rightarrow> v)"
| "read_response _ = JUndefined"

section \<open>Cache keys\<close>

text \<open>
  \<open>CacheKey = string | readonly unknown[] | Record<string, any> | null | undefined\<close>.
  A record is an association list in insertion order, with distinct names.
\<close>

datatype CacheKey =
    KString string
  | KArray "jsval list"
  | KRecord "(string \<times> jsval) list"
  | KNull
  | KUndefined

text \<open>\<open>Array.prototype.join\<close> on strings.\<close>

fun join :: "string \<Rightarrow> string list \<Rightarrow> string" where
  "join sep [] = []"
| "join sep [x] = x"
| "join sep (x # y # ys) = x @ sep @ join sep (y # ys)"

text \<open>\<open>params[k]\<close>: the value stored under the name, \<open>undefined\<close> when there is none.\<close>

definition prop_of :: "(string \<times> jsval) list \<Rightarrow> string \<Rightarrow> jsval" where
  "prop_of fs k = (case map_of fs k of None \<Rightarrow> JUndefined | Some v \<Rightarrow> v)"

text \<open>
  \<open>buildCacheKey(key, params?)\<close>. \<open>JSON.stringify\<close> (followed by the template's string
  conversion) is the parameter \<open>stringify\<close>. \<open>Object.keys(params).sort()\<close> sorts the names
  by code unit, which is the lexicographic order of \<open>string\<close>.
\<close>

fun buildCacheKey ::
  "(jsval \<Rightarrow> string) \<Rightarrow> CacheKey \<Rightarrow> (string \<times> jsval) list option \<Rightarrow> CacheKey" where
  "buildCacheKey stringify KNull params = KNull"
| "buildCacheKey stringify KUndefined params = KNull"
| "buildCacheKey stringify (KArray xs) params = KArray xs"
| "buildCacheKey stringify (KRecord fs) params = KRecord fs"
| "buildCacheKey stringify (KString url) params =
     (case params of
        None \<Rightarrow> KString url
      | Some ps \<Rightarrow>
          if length (map fst ps) > 0
          then KString (url @ ''?'' @
                 join ''&'' (map (\<lambda>k. k @ ''='' @ stringify (prop_of ps k)) (sort (map fst ps))))
          else KString url)"

text \<open>
  \<open>extractUrlFromKey(key)\<close>. The first test, \<open>if (!key) return null\<close>, catches \<open>null\<close>,
  \<open>undefined\<close> and the empty string. An array has no \<open>url\<close> property, so the empty array
  falls through to \<open>null\<close>. \<open>String(...)\<close> is the parameter \<open>toStr\<close>: it returns the string, or
  the \<open>TypeError\<close> the conversion throws, as it does for an object whose \<open>toString\<close> is
  not callable or that has no prototype. The function has no handler, so what the
  conversion throws leaves it: the result is the thrown error on the left, or the returned
  string or \<open>null\<close> on the right.
\<close>

fun extractUrlFromKey ::
  "(jsval \<Rightarrow> js_error + string) \<Rightarrow> CacheKey \<Rightarrow> js_error + string option" where
  "extractUrlFromKey toStr KNull = Inr None"
| "extractUrlFromKey toStr KUndefined = Inr None"
| "extractUrlFromKey toStr (KString s) = (if s = [] then Inr None else Inr (Some s))"
| "extractUrlFromKey toStr (KArray []) = Inr None"
| "extractUrlFromKey toStr (KArray (x # xs)) =
     (case toStr x of Inl e \<Rightarrow> Inl e | Inr t \<Rightarrow> Inr (Some t))"
| "extractUrlFromKey toStr (KRecord fs) =
     (case map_of fs ''url'' of
        None \<Rightarrow> Inr None
      | Some v \<Rightarrow> (case toStr v of Inl e \<Rightarrow> Inl e | Inr t \<Rightarrow> Inr (Some t)))"

text \<open>\<open>extractResponseFromError(error) = error?.response || null\<close>.\<close>

definition extractResponseFromError :: "jsval \<Rightarrow> jsval" where
  "extractResponseFromError error =
     (let r = read_response error in if truthy r then r else JNull)"


section \<open>Strings\<close>

text \<open>
  \<open>toLowerCase\<close> and \<open>toUpperCase\<close> on the ASCII letters; every other character is left
  as it is.
\<close>

definition toLowerCase_char :: "char \<Rightarrow> char" where
  "toLowerCase_char c =
     (case map_of (zip ''ABCDEFGHIJKLMNOPQRSTUVWXYZ'' ''abcdefghijklmnopqrstuvwxyz'') c of
        None \<Rightarrow> c | Some l \<Rightarrow> l)"

definition toUpperCase_char :: "char \<Rightarrow> char" where
  "toUpperCase_char c =
     (case map_of (zip ''abcdefghijklmnopqrstuvwxyz'' ''ABCDEFGHIJKLMNOPQRSTUVWXYZ'') c of
        None \<Rightarrow> c | Some u \<Rightarrow> u)"

definition toLowerCase :: "string \<Rightarrow> string" where
  "toLowerCase s = map toLowerCase_char s"

definition toUpperCase :: "string \<Rightarrow> string" where
  "toUpperCase s = map toUpperCase_char s"

section \<open>Request configuration\<close>

text \<open>
  An optional property of an object is absent, present holding \<open>undefined\<close>, or present
  with a value. Reading it gives \<open>undefined\<close> in the first two cases; \<open>Object.assign\<close> and
  the spread syntax copy every present property, also one that holds \<open>undefined\<close>.
\<close>

datatype 'a optional = Absent | Undef | Val 'a

fun read :: "'a optional \<Rightarrow> 'a option" where
  "read (Val v) = Some v"
| "read Undef = None"
| "read Absent = None"

definition assign_prop :: "'a optional \<Rightarrow> 'a optional \<Rightarrow> 'a optional" where
  "assign_prop target source = (case source of Absent \<Rightarrow> target | _ \<Rightarrow> source)"

text \<open>
  \<open>HeadersInit\<close> is a \<open>Headers\<close> instance, an array of name/value entries, or a plain
  record.
\<close>

datatype HeadersInit =
    HeadersInstance "(string \<times> string) list"
  | HeadersArray "(string \<times> string) list"
  | HeadersRecord "(string \<times> string) list"

text \<open>
  The \<open>options\<close> of a request config. The fetcher spreads them over the object it hands to
  the transport, so every key they carry counts: \<open>method\<close>, \<open>headers\<close> and \<open>body\<close>; a
  \<open>timeout\<close> key, which \<open>RequestInit\<close> does not declare but the spread copies like any
  other; and the remaining members of \<open>RequestInit\<close>, which no modelled code reads.
\<close>

datatype init_member =
    Cache | Credentials | Integrity | Keepalive | Mode | Priority | Redirect | Referrer
  | ReferrerPolicy | Signal | Window

record RequestInit =
  ri_method :: "string optional"
  ri_headers :: "HeadersInit optional"
  ri_body :: "jsval optional"
  ri_timeout :: "js_number optional"
  ri_others :: "(init_member \<times> jsval) list"

text \<open>
  \<open>SWRKitRequestConfig\<close>. The fields \<open>method\<close>, \<open>data\<close> and \<open>headers\<close> carry the prefix
  \<open>cfg_\<close>; the other fields have the names of the source.
\<close>

record SWRKitRequestConfig =
  url :: "string optional"
  cfg_method :: "string optional"
  params :: "(string \<times> jsval) list optional"
  cfg_data :: "jsval optional"
  cfg_headers :: "HeadersInit optional"
  timeout :: "js_number optional"
  options :: "RequestInit optional"

text \<open>The object literal \<open>{}\<close>.\<close>

definition empty_config :: SWRKitRequestConfig where
  "empty_config =
     \<lparr>url = Absent, cfg_method = Absent, params = Absent, cfg_data = Absent,
      cfg_headers = Absent, timeout = Absent, options = Absent\<rparr>"

text \<open>\<open>Object.assign(target, source)\<close> on request configs.\<close>

definition object_assign ::
  "SWRKitRequestConfig \<Rightarrow> SWRKitRequestConfig \<Rightarrow> SWRKitRequestConfig" where
  "object_assign target source =
     \<lparr>url = assign_prop (url target) (url source),
      cfg_method = assign_prop (cfg_method target) (cfg_method source),
      params = assign_prop (params target) (params source),
      cfg_data = assign_prop (cfg_data target) (cfg_data source),
      cfg_headers = assign_prop (cfg_headers target) (cfg_headers source),
      timeout = assign_prop (timeout target) (timeout source),
      options = assign_prop (options target) (options source)\<rparr>"

text \<open>
  \<open>{ ...a, ...b }\<close> on records: the names of \<open>a\<close> in their order, each with the value of
  \<open>b\<close> where \<open>b\<close> has the name, then the names only \<open>b\<close> has. Spreading \<open>undefined\<close> adds
  nothing.
\<close>

definition spread :: "(string \<times> 'v) list option \<Rightarrow> (string \<times> 'v) list \<Rightarrow> (string \<times> 'v) list" where
  "spread a b =
     (case a of
        None \<Rightarrow> b
      | Some xs \<Rightarrow>
          map (\<lambda>(k, v). (k, case map_of b k of None \<Rightarrow> v | Some w \<Rightarrow> w)) xs
          @ filter (\<lambda>(k, w). map_of xs k = None) b)"

section \<open>The HTTP helper package\<close>

text \<open>
  What the fetcher hands to the transport: the object literal
  \<open>{ method, headers, body, timeout, ...config.options }\<close>. The spread comes last, so a
  key of the options replaces the property written before it, also when it holds
  \<open>undefined\<close>.
\<close>

record fetchConfig =
  fc_method :: "string option"
  fc_headers :: "HeadersInit option"
  fc_body :: jsval
  fc_timeout :: "js_number option"
  fc_others :: "(init_member \<times> jsval) list"

text \<open>The \<open>Response\<close> of the Fetch API, as far as the fetcher reads it.\<close>

record FetchResponse =
  resp_ok :: bool
  resp_status :: int
  resp_statusText :: string
  resp_headers :: "(string \<times> string) list"
  resp_body :: string

text \<open>
  The functions imported from \<open>@mshindi-labs/refetch\<close> are not part of this repository;
  they are parameters of the model. A function that can throw returns the thrown error on
  the left.
\<close>

record refetch =
  classifyProblem :: "int option \<Rightarrow> js_error option \<Rightarrow> PROBLEM_CODE"
  buildUrl :: "string option \<Rightarrow> string \<Rightarrow> (string \<times> jsval) list option \<Rightarrow> string"
  mergeHeaders :: "HeadersInit option \<Rightarrow> HeadersInit option \<Rightarrow> HeadersInit"
  headersToObject :: "(string \<times> string) list \<Rightarrow> (string \<times> string) list"
  fetchWithTimeout :: "string \<Rightarrow> fetchConfig \<Rightarrow> js_error + FetchResponse"
  parseResponseBody :: "FetchResponse \<Rightarrow> js_error + jsval"
  prepareRequestBody :: "jsval \<Rightarrow> jsval"

section \<open>Merging request configs\<close>

text \<open>
  One iteration of the loop of \<open>mergeConfigs\<close> for a config that is not \<open>undefined\<close>.
  \<open>Object.assign\<close> runs first; the two merges that follow read \<open>merged.headers\<close> and
  \<open>merged.params\<close> after it.
\<close>

definition merge_step ::
  "refetch \<Rightarrow> SWRKitRequestConfig \<Rightarrow> SWRKitRequestConfig \<Rightarrow> SWRKitRequestConfig" where
  "merge_step lib merged config =
     (let m1 = object_assign merged config;
          m2 = (case cfg_headers config of
                  Val h \<Rightarrow>
                    m1\<lparr>cfg_headers := Val (mergeHeaders lib (read (cfg_headers m1)) (Some h))\<rparr>
                | _ \<Rightarrow> m1);
          m3 = (case params config of
                  Val p \<Rightarrow> m2\<lparr>params := Val (spread (read (params m2)) p)\<rparr>
                | _ \<Rightarrow> m2)
      in m3)"

fun mergeConfigs_from ::
  "refetch \<Rightarrow> SWRKitRequestConfig \<Rightarrow> SWRKitRequestConfig option list \<Rightarrow> SWRKitRequestConfig" where
  "mergeConfigs_from lib merged [] = merged"
| "mergeConfigs_from lib merged (None # cs) = mergeConfigs_from lib merged cs"
| "mergeConfigs_from lib merged (Some c # cs) = mergeConfigs_from lib (merge_step lib merged c) cs"

definition mergeConfigs ::
  "refetch \<Rightarrow> SWRKitRequestConfig option list \<Rightarrow> SWRKitRequestConfig" where
  "mergeConfigs lib configs = mergeConfigs_from lib empty_config configs"

section \<open>The authentication transform\<close>

record AuthConfig =
  accessTokenCookie :: "string optional"
  authHeader :: "string optional"
  tokenPrefix :: "string optional"
  autoAuth :: "bool optional"

definition DEFAULT_AUTH_CONFIG :: AuthConfig where
  "DEFAULT_AUTH_CONFIG =
     \<lparr>accessTokenCookie = Val ''access_token'', authHeader = Val ''Authorization'',
      tokenPrefix = Val ''Bearer'', autoAuth = Val True\<rparr>"

text \<open>\<open>{ ...DEFAULT_AUTH_CONFIG, ...userConfig?.auth }\<close>.\<close>

definition authConfig_of :: "AuthConfig option \<Rightarrow> AuthConfig" where
  "authConfig_of userAuth =
     (case userAuth of
        None \<Rightarrow> DEFAULT_AUTH_CONFIG
      | Some a \<Rightarrow>
          \<lparr>accessTokenCookie =
             assign_prop (accessTokenCookie DEFAULT_AUTH_CONFIG) (accessTokenCookie a),
           authHeader = assign_prop (authHeader DEFAULT_AUTH_CONFIG) (authHeader a),
           tokenPrefix = assign_prop (tokenPrefix DEFAULT_AUTH_CONFIG) (tokenPrefix a),
           autoAuth = assign_prop (autoAuth DEFAULT_AUTH_CONFIG) (autoAuth a)\<rparr>)"

text \<open>\<open>s || fallback\<close> on an optional string.\<close>

definition or_string :: "string option \<Rightarrow> string \<Rightarrow> string" where
  "or_string s fallback = (case s of None \<Rightarrow> fallback | Some t \<Rightarrow> if t \<noteq> [] then t else fallback)"

text \<open>
  \<open>Headers.prototype.set\<close>: names match without regard to case; the first header of the
  name takes the new value and the others of the name are removed; a new name is appended.
\<close>

fun headers_set :: "string \<Rightarrow> string \<Rightarrow> (string \<times> string) list \<Rightarrow> (string \<times> string) list" where
  "headers_set n v [] = [(n, v)]"
| "headers_set n v ((k, w) # hs) =
     (if toLowerCase k = toLowerCase n
      then (k, v) # filter (\<lambda>(k', w'). toLowerCase k' \<noteq> toLowerCase n) hs
      else (k, w) # headers_set n v hs)"

text \<open>\<open>record[name] = value\<close>.\<close>

fun record_set :: "string \<Rightarrow> 'v \<Rightarrow> (string \<times> 'v) list \<Rightarrow> (string \<times> 'v) list" where
  "record_set n v [] = [(n, v)]"
| "record_set n v ((k, w) # fs) = (if k = n then (k, v) # fs else (k, w) # record_set n v fs)"

text \<open>
  The request transform the provider installs first. \<open>getAccessToken\<close> is the provider's
  optional callback; it returns the token or \<open>null\<close>. The transform mutates \<open>config\<close> in
  place; the model returns the config after the call.
\<close>

definition authTransform ::
  "AuthConfig option \<Rightarrow> (string option \<Rightarrow> string option) option \<Rightarrow> SWRKitRequestConfig
     \<Rightarrow> SWRKitRequestConfig" where
  "authTransform userAuth getAccessToken config =
     (let authConfig = authConfig_of userAuth in
      case getAccessToken of
        None \<Rightarrow> config
      | Some getToken \<Rightarrow>
          if autoAuth authConfig = Val False then config
          else
            (case getToken (read (accessTokenCookie authConfig)) of
               None \<Rightarrow> config
             | Some token \<Rightarrow>
                 if token = [] then config
                 else
                   (let header = or_string (read (authHeader authConfig)) ''Authorization'';
                        prefix = or_string (read (tokenPrefix authConfig)) ''Bearer'';
                        authValue = prefix @ '' '' @ token;
                        hs = (case read (cfg_headers config) of
                                None \<Rightarrow> HeadersRecord [] | Some h \<Rightarrow> h)
                    in case hs of
                         HeadersInstance es \<Rightarrow>
                           config\<lparr>cfg_headers := Val (HeadersInstance (headers_set header authValue es))\<rparr>
                       | HeadersArray es \<Rightarrow>
                           if list_ex (\<lambda>(k, w). toLowerCase k = toLowerCase header) es
                           then config\<lparr>cfg_headers := Val (HeadersArray es)\<rparr>
                           else config\<lparr>cfg_headers := Val (HeadersArray (es @ [(header, authValue)]))\<rparr>
                       | HeadersRecord fs \<Rightarrow>
                           if (case map_of fs header of None \<Rightarrow> False | Some v \<Rightarrow> v \<noteq> [])
                           then config\<lparr>cfg_headers := Val (HeadersRecord fs)\<rparr>
                           else config\<lparr>cfg_headers :=
                                  Val (HeadersRecord (record_set header authValue fs))\<rparr>)))"

section \<open>Normalised responses and typed errors\<close>

text \<open>Decimal notation of a number, as a template literal prints an integer.\<close>

definition digit_char :: "nat \<Rightarrow> char" where
  "digit_char d = ''0123456789'' ! d"

fun decimal :: "nat \<Rightarrow> string" where
  "decimal n = (if n < 10 then [digit_char n] else decimal (n div 10) @ [digit_char (n mod 10)])"

declare decimal.simps [simp del]

definition number_to_string :: "int \<Rightarrow> string" where
  "number_to_string i = (if i < 0 then ''-'' @ decimal (nat (- i)) else decimal (nat i))"

definition status_to_string :: "int option \<Rightarrow> string" where
  "status_to_string st = (case st of None \<Rightarrow> ''undefined'' | Some n \<Rightarrow> number_to_string n)"

text \<open>\<open>normalizeResponse(data, response, duration)\<close>.\<close>

definition normalizeResponse :: "refetch \<Rightarrow> jsval \<Rightarrow> FetchResponse \<Rightarrow> int \<Rightarrow> SWRKitResponse" where
  "normalizeResponse lib d response dur =
     (if resp_ok response
      then SWRKitResponse True None None d (Some (resp_status response))
             (Some (headersToObject lib (resp_headers response))) (Some dur)
      else
        (let error = Error ''Error''
               (''HTTP Error '' @ number_to_string (resp_status response) @ '': ''
                  @ resp_statusText response) None None None
         in SWRKitResponse False (Some (classifyProblem lib (Some (resp_status response)) None))
              (Some error) d (Some (resp_status response))
              (Some (headersToObject lib (resp_headers response))) (Some dur)))"

text \<open>\<open>normalizeErrorResponse(error, response?, duration?)\<close>.\<close>

definition normalizeErrorResponse ::
  "refetch \<Rightarrow> js_error \<Rightarrow> FetchResponse option \<Rightarrow> int option \<Rightarrow> SWRKitResponse" where
  "normalizeErrorResponse lib error response dur =
     (let st = map_option resp_status response;
          pr = classifyProblem lib st (Some error)
      in SWRKitResponse False (Some pr) (Some error) JUndefined st
           (map_option (\<lambda>r. headersToObject lib (resp_headers r)) response) dur)"

text \<open>
  \<open>createErrorFromResponse(response)\<close>: one error class per problem code, the base class
  with \<open>UNKNOWN_ERROR\<close> otherwise. The constructor stores the response and its status.
\<close>

definition createErrorFromResponse :: "SWRKitResponse \<Rightarrow> js_error" where
  "createErrorFromResponse response =
     (let msg = or_string (map_option message (originalError response))
                  (''Request failed with status '' @ status_to_string (status response))
      in case problem response of
           Some CLIENT_ERROR \<Rightarrow>
             Error ''SWRKitClientError'' msg (Some CLIENT_ERROR) (Some response) (status response)
         | Some SERVER_ERROR \<Rightarrow>
             Error ''SWRKitServerError'' msg (Some SERVER_ERROR) (Some response) (status response)
         | Some NETWORK_ERROR \<Rightarrow>
             Error ''SWRKitNetworkError'' msg (Some NETWORK_ERROR) (Some response) (status response)
         | Some CONNECTION_ERROR \<Rightarrow>
             Error ''SWRKitConnectionError'' msg (Some CONNECTION_ERROR) (Some response)
               (status response)
         | Some TIMEOUT_ERROR \<Rightarrow>
             Error ''SWRKitTimeoutError'' msg (Some TIMEOUT_ERROR) (Some response) (status response)
         | Some CANCEL_ERROR \<Rightarrow>
             Error ''SWRKitCancelError'' msg (Some CANCEL_ERROR) (Some response) (status response)
         | _ \<Rightarrow>
             Error ''SWRKitError'' msg (Some UNKNOWN_ERROR) (Some response) (status response))"

section \<open>The fetcher\<close>

text \<open>
  Transforms mutate their argument in place and may throw; a transform is modelled by a
  function that returns the thrown error or the argument after the call. A monitor reads
  the response and may throw. Every invocation is recorded in an event log, with the
  position of the callable in its list and the response it received.
\<close>

type_synonym RequestTransform = "SWRKitRequestConfig \<Rightarrow> js_error + SWRKitRequestConfig"
type_synonym ResponseTransform = "SWRKitResponse \<Rightarrow> js_error + SWRKitResponse"
type_synonym Monitor = "SWRKitResponse \<Rightarrow> js_error option"

datatype event =
    RequestTransformRun nat
  | TransportCall string fetchConfig
  | ResponseTransformRun nat SWRKitResponse
  | MonitorRun nat SWRKitResponse
  | ConsoleError js_error

fun applyRequestTransforms ::
  "nat \<Rightarrow> SWRKitRequestConfig \<Rightarrow> RequestTransform list \<Rightarrow> event list
     \<Rightarrow> (js_error + SWRKitRequestConfig) \<times> event list" where
  "applyRequestTransforms i config [] evs = (Inr config, evs)"
| "applyRequestTransforms i config (t # ts) evs =
     (case t config of
        Inl e \<Rightarrow> (Inl e, evs @ [RequestTransformRun i])
      | Inr config' \<Rightarrow> applyRequestTransforms (Suc i) config' ts (evs @ [RequestTransformRun i]))"

fun applyResponseTransforms ::
  "nat \<Rightarrow> SWRKitResponse \<Rightarrow> ResponseTransform list \<Rightarrow> event list
     \<Rightarrow> (js_error + SWRKitResponse) \<times> event list" where
  "applyResponseTransforms i response [] evs = (Inr response, evs)"
| "applyResponseTransforms i response (t # ts) evs =
     (case t response of
        Inl e \<Rightarrow> (Inl e, evs @ [ResponseTransformRun i response])
      | Inr response' \<Rightarrow>
          applyResponseTransforms (Suc i) response' ts (evs @ [ResponseTransformRun i response]))"

text \<open>\<open>notifyMonitors\<close>: a monitor's exception is caught and written to the console.\<close>

fun notifyMonitors :: "nat \<Rightarrow> SWRKitResponse \<Rightarrow> Monitor list \<Rightarrow> event list \<Rightarrow> event list" where
  "notifyMonitors i response [] evs = evs"
| "notifyMonitors i response (m # ms) evs =
     notifyMonitors (Suc i) response ms
       (evs @ [MonitorRun i response]
            @ (case m response of None \<Rightarrow> [] | Some e \<Rightarrow> [ConsoleError e]))"

definition METHODS_WITH_BODY :: "string list" where
  "METHODS_WITH_BODY = [''POST'', ''PUT'', ''PATCH'']"

definition DEFAULT_TIMEOUT :: js_number where
  "DEFAULT_TIMEOUT = Finite 10000"

definition shouldHaveBody :: "string \<Rightarrow> bool" where
  "shouldHaveBody m = (toUpperCase m \<in> set METHODS_WITH_BODY)"

text \<open>What \<open>createFetcher\<close> closes over.\<close>

record fetcher_setup =
  baseURL :: "string option"
  defaultHeaders :: "HeadersInit option"
  defaultTimeout :: "js_number option"
  requestTransforms :: "RequestTransform list option"
  responseTransforms :: "ResponseTransform list option"
  monitors :: "Monitor list option"

text \<open>The three readings of \<open>Date.now()\<close>: on entry, after the transport call, in the handler.\<close>

record clock =
  now_start :: int
  now_fetched :: int
  now_caught :: int

text \<open>
  \<open>n || fallback\<close> on an optional number: \<open>undefined\<close>, \<open>0\<close> and \<open>NaN\<close> are falsy.
\<close>

definition or_number :: "js_number option \<Rightarrow> js_number \<Rightarrow> js_number" where
  "or_number n fallback =
     (case n of None \<Rightarrow> fallback | Some k \<Rightarrow> if truthy_number k then k else fallback)"

text \<open>
  The object literal \<open>fetchConfig\<close>, with the method and the body computed before it.
  \<open>config.timeout || defaultTimeout || DEFAULT_TIMEOUT\<close> takes the first truthy operand,
  and the last one if none is. The options are spread over the literal's four properties.
\<close>

definition fetchConfig_of :: "refetch \<Rightarrow> fetcher_setup \<Rightarrow> SWRKitRequestConfig \<Rightarrow> fetchConfig" where
  "fetchConfig_of lib f config =
     (let hdrs = mergeHeaders lib (defaultHeaders f) (read (cfg_headers config));
          m = or_string (map_option toUpperCase (read (cfg_method config))) ''GET'';
          body = (if shouldHaveBody m
                  then prepareRequestBody lib
                         (case read (cfg_data config) of None \<Rightarrow> JUndefined | Some d \<Rightarrow> d)
                  else JUndefined);
          t = or_number (read (timeout config)) (or_number (defaultTimeout f) DEFAULT_TIMEOUT)
      in case read (options config) of
           None \<Rightarrow>
             \<lparr>fc_method = Some m, fc_headers = Some hdrs, fc_body = body,
              fc_timeout = Some t, fc_others = []\<rparr>
         | Some opts \<Rightarrow>
             \<lparr>fc_method = (case ri_method opts of Absent \<Rightarrow> Some m | x \<Rightarrow> read x),
              fc_headers = (case ri_headers opts of Absent \<Rightarrow> Some hdrs | x \<Rightarrow> read x),
              fc_body = (case ri_body opts of Absent \<Rightarrow> body | Undef \<Rightarrow> JUndefined | Val b \<Rightarrow> b),
              fc_timeout = (case ri_timeout opts of Absent \<Rightarrow> Some t | x \<Rightarrow> read x),
              fc_others = ri_others opts\<rparr>)"

text \<open>
  The guarded statements \<open>if (xs && xs.length > 0) ...\<close> that run the request transforms,
  the response transforms and the monitors.
\<close>

definition run_requestTransforms ::
  "fetcher_setup \<Rightarrow> SWRKitRequestConfig \<Rightarrow> event list
     \<Rightarrow> (js_error + SWRKitRequestConfig) \<times> event list" where
  "run_requestTransforms f config evs =
     (case requestTransforms f of
        None \<Rightarrow> (Inr config, evs)
      | Some ts \<Rightarrow>
          if length ts > 0 then applyRequestTransforms 0 config ts evs else (Inr config, evs))"

definition run_responseTransforms ::
  "fetcher_setup \<Rightarrow> SWRKitResponse \<Rightarrow> event list \<Rightarrow> (js_error + SWRKitResponse) \<times> event list" where
  "run_responseTransforms f response evs =
     (case responseTransforms f of
        None \<Rightarrow> (Inr response, evs)
      | Some ts \<Rightarrow>
          if length ts > 0 then applyResponseTransforms 0 response ts evs
          else (Inr response, evs))"

definition run_monitors :: "fetcher_setup \<Rightarrow> SWRKitResponse \<Rightarrow> event list \<Rightarrow> event list" where
  "run_monitors f response evs =
     (case monitors f of
        None \<Rightarrow> evs
      | Some ms \<Rightarrow> if length ms > 0 then notifyMonitors 0 response ms evs else evs)"

text \<open>
  The \<open>try\<close> block of the fetcher, from the parsed body on: normalise, transform, notify,
  and throw the typed error when the response is not ok.
\<close>

definition fetcher_try_finish ::
  "refetch \<Rightarrow> fetcher_setup \<Rightarrow> jsval \<Rightarrow> FetchResponse \<Rightarrow> int \<Rightarrow> event list
     \<Rightarrow> (js_error + SWRKitResponse) \<times> event list" where
  "fetcher_try_finish lib f d response dur evs =
     (let swrKitResponse = normalizeResponse lib d response dur
      in case run_responseTransforms f swrKitResponse evs of
           (Inl e, log') \<Rightarrow> (Inl e, log')
         | (Inr r, log') \<Rightarrow>
             (let log'' = run_monitors f r log'
              in if \<not> ok r then (Inl (createErrorFromResponse r), log'') else (Inr r, log'')))"

text \<open>
  The whole \<open>try\<close> block. Whatever is thrown inside it, by a transform, by the transport,
  by the body parser or by the block's own \<open>throw\<close> for a response that is not ok, is the
  left result, which the handler below receives.
\<close>

definition fetcher_try ::
  "refetch \<Rightarrow> fetcher_setup \<Rightarrow> clock \<Rightarrow> SWRKitRequestConfig
     \<Rightarrow> (js_error + SWRKitResponse) \<times> event list" where
  "fetcher_try lib f clk config =
     (case run_requestTransforms f config [] of
        (Inl e, log1) \<Rightarrow> (Inl e, log1)
      | (Inr config', log1) \<Rightarrow>
          (let fullUrl = buildUrl lib (baseURL f) (or_string (read (url config')) [])
                           (read (params config'));
               fc = fetchConfig_of lib f config';
               log2 = log1 @ [TransportCall fullUrl fc]
           in case fetchWithTimeout lib fullUrl fc of
                Inl e \<Rightarrow> (Inl e, log2)
              | Inr response \<Rightarrow>
                  (case parseResponseBody lib response of
                     Inl e \<Rightarrow> (Inl e, log2)
                   | Inr d \<Rightarrow>
                       fetcher_try_finish lib f d response
                         (now_fetched clk - now_start clk) log2)))"

text \<open>
  The \<open>catch\<close> block. An exception of a response transform in here leaves the fetcher as
  it is; otherwise the block ends by throwing the typed error.
\<close>

definition fetcher_catch ::
  "refetch \<Rightarrow> fetcher_setup \<Rightarrow> clock \<Rightarrow> js_error \<Rightarrow> event list
     \<Rightarrow> (js_error + SWRKitResponse) \<times> event list" where
  "fetcher_catch lib f clk error evs =
     (let swrKitResponse =
            normalizeErrorResponse lib error None (Some (now_caught clk - now_start clk))
      in case run_responseTransforms f swrKitResponse evs of
           (Inl e, log') \<Rightarrow> (Inl e, log')
         | (Inr r, log') \<Rightarrow> (Inl (createErrorFromResponse r), run_monitors f r log'))"

text \<open>
  The function \<open>createFetcher\<close> returns: the result is the returned response on the
  right, or the thrown error on the left, with the log of what ran.
\<close>

definition fetcher ::
  "refetch \<Rightarrow> fetcher_setup \<Rightarrow> clock \<Rightarrow> SWRKitRequestConfig
     \<Rightarrow> (js_error + SWRKitResponse) \<times> event list" where
  "fetcher lib f clk config =
     (case fetcher_try lib f clk config of
        (Inr r, evs) \<Rightarrow> (Inr r, evs)
      | (Inl error, evs) \<Rightarrow> fetcher_catch lib f clk error evs)"

section \<open>Mutations\<close>

text \<open>A property written in an object literal: present, holding the value or \<open>undefined\<close>.\<close>

definition present :: "jsval \<Rightarrow> jsval optional" where
  "present v = (if v = JUndefined then Undef else Val v)"

text \<open>
  The \<open>trigger\<close> function \<open>useMutation\<close> returns. \<open>u\<close>, \<open>m\<close> and \<open>requestConfig\<close> are the
  hook's \<open>url\<close>, \<open>method\<close> and \<open>request\<close> options, \<open>contextFetcher\<close> is the provider's
  fetcher and \<open>trigger\<close> is the trigger of the cache library's mutation hook, which returns
  the data or throws. The result is the returned value on the right, or the thrown value on
  the left.
\<close>

definition wrappedTrigger ::
  "refetch \<Rightarrow> string \<Rightarrow> string \<Rightarrow> SWRKitRequestConfig option
     \<Rightarrow> (SWRKitRequestConfig \<Rightarrow> js_error + SWRKitResponse) \<Rightarrow> (jsval \<Rightarrow> jsval + jsval)
     \<Rightarrow> jsval \<Rightarrow> SWRKitRequestConfig option \<Rightarrow> jsval + jsval" where
  "wrappedTrigger lib u m requestConfig contextFetcher trigger variables overrideConfig =
     (case overrideConfig of
        Some override \<Rightarrow>
          (let mergedConfig = mergeConfigs lib
                 [Some (empty_config\<lparr>url := Val u, cfg_method := Val m,
                          cfg_data := present variables\<rparr>),
                  requestConfig, Some override]
           in case contextFetcher mergedConfig of
                Inl e \<Rightarrow> Inl (JError e)
              | Inr response \<Rightarrow> Inr (JResponse response))
      | None \<Rightarrow>
          (case trigger variables of
             Inr result \<Rightarrow> Inr (JResponse (SWRKitResponse True None None result None None None))
           | Inl error \<Rightarrow>
               (let responseData = extractResponseFromError error
                in if truthy responseData then Inr responseData else Inl error)))"




section \<open>Reading event logs\<close>

fun isResponseTransformRun :: "event \<Rightarrow> bool" where
  "isResponseTransformRun (ResponseTransformRun i r) = True"
| "isResponseTransformRun _ = False"

fun isMonitorRun :: "event \<Rightarrow> bool" where
  "isMonitorRun (MonitorRun i r) = True"
| "isMonitorRun _ = False"

text \<open>
  The timeouts of the transport calls in a log, in order; \<open>None\<close> is a call whose
  \<open>timeout\<close> property holds \<open>undefined\<close>.
\<close>

fun transport_timeouts :: "event list \<Rightarrow> js_number option list" where
  "transport_timeouts [] = []"
| "transport_timeouts (TransportCall u fc # es) = fc_timeout fc # transport_timeouts es"
| "transport_timeouts (_ # es) = transport_timeouts es"

text \<open>
  The \<open>timeout\<close> key of \<open>config.options\<close>: absent when there are no options or the options
  have no such key.
\<close>

definition options_timeout :: "SWRKitRequestConfig \<Rightarrow> js_number optional" where
  "options_timeout config =
     (case read (options config) of None \<Rightarrow> Absent | Some opts \<Rightarrow> ri_timeout opts)"


section \<open>Scenarios\<close>

text \<open>
  A stand-in for the helper package: the transport answers every call with \<open>outcome\<close>
  and the body parser with \<open>parsed\<close>; the classifier is given.
\<close>

definition stub_refetch ::
  "(int option \<Rightarrow> js_error option \<Rightarrow> PROBLEM_CODE) \<Rightarrow> js_error + FetchResponse
     \<Rightarrow> js_error + jsval \<Rightarrow> refetch" where
  "stub_refetch classify outcome parsed =
     \<lparr>classifyProblem = classify,
      buildUrl = (\<lambda>base path ps. (case base of None \<Rightarrow> [] | Some b \<Rightarrow> b) @ path),
      mergeHeaders = (\<lambda>a b. case b of
                               Some h \<Rightarrow> h
                             | None \<Rightarrow> (case a of Some h \<Rightarrow> h | None \<Rightarrow> HeadersRecord [])),
      headersToObject = (\<lambda>hs. hs),
      fetchWithTimeout = (\<lambda>u fc. outcome),
      parseResponseBody = (\<lambda>r. parsed),
      prepareRequestBody = (\<lambda>d. d)\<rparr>"

text \<open>
  \<open>String(...)\<close> on the values of the model, the instance of \<open>toStr\<close> the scenarios use.
  An array is its elements joined by commas, \<open>null\<close> and \<open>undefined\<close> elements as the empty
  string. No value of the model is a function, so an object with an own \<open>toString\<close>
  property has no callable \<open>toString\<close>, and the \<open>valueOf\<close> it falls back to returns the
  object itself: the conversion throws a \<open>TypeError\<close>. Any other plain object is
  \<open>[object Object]\<close>, and an error is its name and message.
\<close>

definition error_to_string :: "js_error \<Rightarrow> string" where
  "error_to_string e =
     (if name e = [] then message e
      else if message e = [] then name e
      else name e @ '': '' @ message e)"

fun js_String :: "jsval \<Rightarrow> js_error + string"
  and js_join :: "jsval list \<Rightarrow> js_error + string" where
  "js_String JUndefined = Inr ''undefined''"
| "js_String JNull = Inr ''null''"
| "js_String (JBool b) = Inr (if b then ''true'' else ''false'')"
| "js_String (JNum n) = Inr (number_to_string n)"
| "js_String (JStr t) = Inr t"
| "js_String (JArr xs) = js_join xs"
| "js_String (JObj fs) =
     (case map_of fs ''toString'' of
        None \<Rightarrow> Inr ''[object Object]''
      | Some v \<Rightarrow>
          Inl (Error ''TypeError'' ''Cannot convert object to primitive value'' None None None))"
| "js_String (JError e) = Inr (error_to_string e)"
| "js_String (JResponse r) = Inr ''[object Object]''"
| "js_join [] = Inr []"
| "js_join (x # xs) =
     (case (if x = JUndefined \<or> x = JNull then Inr [] else js_String x) of
        Inl e \<Rightarrow> Inl e
      | Inr t \<Rightarrow>
          (if xs = [] then Inr t
           else case js_join xs of Inl e \<Rightarrow> Inl e | Inr u \<Rightarrow> Inr (t @ '','' @ u)))"

text \<open>Options that carry nothing.\<close>

definition empty_init :: RequestInit where
  "empty_init =
     \<lparr>ri_method = Absent, ri_headers = Absent, ri_body = Absent, ri_timeout = Absent,
      ri_others = []\<rparr>"

text \<open>A fetcher created with no argument.\<close>

definition plain_setup :: fetcher_setup where
  "plain_setup =
     \<lparr>baseURL = None, defaultHeaders = None, defaultTimeout = None,
      requestTransforms = None, responseTransforms = None, monitors = None\<rparr>"

definition not_found :: FetchResponse where
  "not_found =
     \<lparr>resp_ok = False, resp_status = 404, resp_statusText = ''Not Found'',
      resp_headers = [], resp_body = ''{error:nf}''\<rparr>"

definition ok_response :: FetchResponse where
  "ok_response =
     \<lparr>resp_ok = True, resp_status = 200, resp_statusText = ''OK'',
      resp_headers = [], resp_body = ''[]''\<rparr>"

definition test_clock :: clock where
  "test_clock = \<lparr>now_start = 0, now_fetched = 5, now_caught = 6\<rparr>"

section \<open>Properties of the cache-key functions\<close>

lemma sort_keys_eq:
  assumes "distinct (map fst m1)" "distinct (map fst m2)" "set m1 = set m2"
  shows "sort (map fst m1) = sort (map fst m2)"
proof -
  have "set (map fst m1) = set (map fst m2)" using assms(3) by simp
  then show ?thesis
    using assms(1,2) by (intro sorted_distinct_set_unique) simp_all
qed

lemma prop_of_eq:
  assumes "distinct (map fst m1)" "distinct (map fst m2)" "set m1 = set m2"
  shows "prop_of m1 = prop_of m2"
proof -
  have "map_of m1 = map_of m2" using assms by (simp add: map_of_inject_set)
  then show ?thesis by (simp add: prop_of_def fun_eq_iff)
qed

lemma prop_of_present:
  "k \<in> fst ` set m \<Longrightarrow> prop_of m k = the (map_of m k)"
  by (auto simp: prop_of_def map_of_eq_None_iff split: option.splits)

text \<open>
  C7. Two parameter records with distinct names and the same name/value pairs, in any
  insertion order, give the same key for a string path; and when there is at least one
  parameter the key is the path, \<open>?\<close>, and the entries \<open>name=JSON(value)\<close> joined by \<open>&\<close>,
  the names running through a sorted, duplicate-free list of exactly the record's names.
\<close>

theorem buildCacheKey_order_independent:
  assumes "distinct (map fst m1)" "distinct (map fst m2)" "set m1 = set m2"
  shows "buildCacheKey stringify (KString p) (Some m1)
           = buildCacheKey stringify (KString p) (Some m2)
    \<and> (m1 \<noteq> [] \<longrightarrow>
         (\<exists>ks. sorted ks \<and> distinct ks \<and> set ks = fst ` set m1 \<and>
            buildCacheKey stringify (KString p) (Some m1) =
              KString (p @ ''?'' @
                join ''&'' (map (\<lambda>k. k @ ''='' @ stringify (the (map_of m1 k))) ks))))"
proof -
  have s: "sort (map fst m1) = sort (map fst m2)" by (rule sort_keys_eq [OF assms])
  have q: "prop_of m1 = prop_of m2" by (rule prop_of_eq [OF assms])
  have e: "(m1 = []) = (m2 = [])" using assms(3) by auto
  have first: "buildCacheKey stringify (KString p) (Some m1)
      = buildCacheKey stringify (KString p) (Some m2)"
    using s q e by simp
  have second: "\<exists>ks. sorted ks \<and> distinct ks \<and> set ks = fst ` set m1 \<and>
            buildCacheKey stringify (KString p) (Some m1) =
              KString (p @ ''?'' @
                join ''&'' (map (\<lambda>k. k @ ''='' @ stringify (the (map_of m1 k))) ks))"
    if ne: "m1 \<noteq> []"
  proof (intro exI [of _ "sort (map fst m1)"] conjI)
    show "sorted (sort (map fst m1))" by simp
    show "distinct (sort (map fst m1))" using assms(1) by simp
    show "set (sort (map fst m1)) = fst ` set m1" by simp
    have "\<And>k. k \<in> set (sort (map fst m1)) \<Longrightarrow> prop_of m1 k = the (map_of m1 k)"
      by (simp add: prop_of_present)
    then have eq: "map (\<lambda>k. k @ ''='' @ stringify (prop_of m1 k)) (sort (map fst m1))
       = map (\<lambda>k. k @ ''='' @ stringify (the (map_of m1 k))) (sort (map fst m1))"
      by (intro map_cong) simp_all
    have "buildCacheKey stringify (KString p) (Some m1) =
      KString (p @ ''?'' @
        join ''&'' (map (\<lambda>k. k @ ''='' @ stringify (prop_of m1 k)) (sort (map fst m1))))"
      using ne by simp
    then show "buildCacheKey stringify (KString p) (Some m1) =
      KString (p @ ''?'' @
        join ''&'' (map (\<lambda>k. k @ ''='' @ stringify (the (map_of m1 k)))
          (sort (map fst m1))))"
      by (simp only: eq)
  qed
  from first second show ?thesis by blast
qed

theorem buildCacheKey_order_independent_witness:
  "distinct (map fst [(''page'', JNum 1), (''limit'', JNum 10)])
   \<and> distinct (map fst [(''limit'', JNum 10), (''page'', JNum 1)])
   \<and> set [(''page'', JNum 1), (''limit'', JNum 10)]
       = set [(''limit'', JNum 10), (''page'', JNum 1)]
   \<and> [(''page'', JNum 1), (''limit'', JNum 10)] \<noteq> []
   \<and> buildCacheKey (\<lambda>v. if v = JNum 1 then ''1'' else ''10'') (KString ''/users'')
        (Some [(''page'', JNum 1), (''limit'', JNum 10)])
      = buildCacheKey (\<lambda>v. if v = JNum 1 then ''1'' else ''10'') (KString ''/users'')
        (Some [(''limit'', JNum 10), (''page'', JNum 1)])
   \<and> buildCacheKey (\<lambda>v. if v = JNum 1 then ''1'' else ''10'') (KString ''/users'')
        (Some [(''page'', JNum 1), (''limit'', JNum 10)])
      = KString ''/users?limit=10&page=1''"
proof -
  have d1: "distinct (map fst [(''page'', JNum 1), (''limit'', JNum 10)])" by simp
  have d2: "distinct (map fst [(''limit'', JNum 10), (''page'', JNum 1)])" by simp
  have st: "set [(''page'', JNum 1), (''limit'', JNum 10)]
       = set [(''limit'', JNum 10), (''page'', JNum 1)]" by auto
  have v: "buildCacheKey (\<lambda>v. if v = JNum 1 then ''1'' else ''10'') (KString ''/users'')
        (Some [(''page'', JNum 1), (''limit'', JNum 10)])
      = KString ''/users?limit=10&page=1''"
    by (simp add: prop_of_def)
  from buildCacheKey_order_independent [OF d1 d2 st,
      of "\<lambda>v. if v = JNum 1 then ''1'' else ''10''" "''/users''"]
  have "buildCacheKey (\<lambda>v. if v = JNum 1 then ''1'' else ''10'') (KString ''/users'')
        (Some [(''page'', JNum 1), (''limit'', JNum 10)])
      = buildCacheKey (\<lambda>v. if v = JNum 1 then ''1'' else ''10'') (KString ''/users'')
        (Some [(''limit'', JNum 10), (''page'', JNum 1)])"
    by blast
  with d1 d2 st v show ?thesis by simp
qed

text \<open>
  C8, as stated, fails on the empty string: it is a string key, and the result is \<open>null\<close>,
  not the string. It also fails in "never raises": for a list whose first element is an
  object with a \<open>toString\<close> property that is not a function, \<open>String(key[0])\<close> throws, and
  the function raises that error.
\<close>

theorem extractUrlFromKey_empty_string_counterexample:
  "extractUrlFromKey js_String (KString []) \<noteq> Inr (Some [])
   \<and> extractUrlFromKey js_String (KArray [JObj [(''toString'', JNum 1)]])
       = Inl (Error ''TypeError'' ''Cannot convert object to primitive value'' None None None)"
  by simp

text \<open>
  C8, amended. A non-empty string key gives the string itself and the empty string gives
  \<open>null\<close>; a non-empty list gives the string form of its first element; a record with a
  \<open>url\<close> property gives the string form of that property; \<open>null\<close>, \<open>undefined\<close>, the empty
  list and a record without \<open>url\<close> give \<open>null\<close>. The function raises an error in exactly two
  cases, with the error of the conversion: when the string conversion of the first element
  of a list throws, and when the string conversion of the \<open>url\<close> property of a record
  throws. These are all the shapes of a key.
\<close>

theorem extractUrlFromKey_cases:
  "(s \<noteq> [] \<longrightarrow> extractUrlFromKey toStr (KString s) = Inr (Some s))
   \<and> extractUrlFromKey toStr (KString []) = Inr None
   \<and> (toStr x = Inr t \<longrightarrow> extractUrlFromKey toStr (KArray (x # xs)) = Inr (Some t))
   \<and> (toStr x = Inl e \<longrightarrow> extractUrlFromKey toStr (KArray (x # xs)) = Inl e)
   \<and> extractUrlFromKey toStr (KArray []) = Inr None
   \<and> (map_of fs ''url'' = Some v \<and> toStr v = Inr t' \<longrightarrow>
        extractUrlFromKey toStr (KRecord fs) = Inr (Some t'))
   \<and> (map_of fs ''url'' = Some v \<and> toStr v = Inl e' \<longrightarrow>
        extractUrlFromKey toStr (KRecord fs) = Inl e')
   \<and> (map_of fs ''url'' = None \<longrightarrow> extractUrlFromKey toStr (KRecord fs) = Inr None)
   \<and> extractUrlFromKey toStr KNull = Inr None
   \<and> extractUrlFromKey toStr KUndefined = Inr None
   \<and> ((\<exists>err. extractUrlFromKey toStr key = Inl err) \<longleftrightarrow>
        (\<exists>y ys err. key = KArray (y # ys) \<and> toStr y = Inl err)
        \<or> (\<exists>gs w err. key = KRecord gs \<and> map_of gs ''url'' = Some w \<and> toStr w = Inl err))"
proof -
  have raises: "(\<exists>err. extractUrlFromKey toStr key = Inl err) \<longleftrightarrow>
        (\<exists>y ys err. key = KArray (y # ys) \<and> toStr y = Inl err)
        \<or> (\<exists>gs w err. key = KRecord gs \<and> map_of gs ''url'' = Some w \<and> toStr w = Inl err)"
  proof (cases key)
    case (KString s')
    then show ?thesis by simp
  next
    case (KArray zs)
    then show ?thesis by (cases zs) (auto split: sum.splits)
  next
    case (KRecord gs)
    then show ?thesis by (auto split: option.splits sum.splits)
  next
    case KNull
    then show ?thesis by simp
  next
    case KUndefined
    then show ?thesis by simp
  qed
  have rest: "(s \<noteq> [] \<longrightarrow> extractUrlFromKey toStr (KString s) = Inr (Some s))
   \<and> extractUrlFromKey toStr (KString []) = Inr None
   \<and> (toStr x = Inr t \<longrightarrow> extractUrlFromKey toStr (KArray (x # xs)) = Inr (Some t))
   \<and> (toStr x = Inl e \<longrightarrow> extractUrlFromKey toStr (KArray (x # xs)) = Inl e)
   \<and> extractUrlFromKey toStr (KArray []) = Inr None
   \<and> (map_of fs ''url'' = Some v \<and> toStr v = Inr t' \<longrightarrow>
        extractUrlFromKey toStr (KRecord fs) = Inr (Some t'))
   \<and> (map_of fs ''url'' = Some v \<and> toStr v = Inl e' \<longrightarrow>
        extractUrlFromKey toStr (KRecord fs) = Inl e')
   \<and> (map_of fs ''url'' = None \<longrightarrow> extractUrlFromKey toStr (KRecord fs) = Inr None)
   \<and> extractUrlFromKey toStr KNull = Inr None
   \<and> extractUrlFromKey toStr KUndefined = Inr None"
    by simp
  from rest raises show ?thesis by blast
qed

theorem extractUrlFromKey_cases_witness:
  "''/users'' \<noteq> []
   \<and> extractUrlFromKey js_String (KString ''/users'') = Inr (Some ''/users'')
   \<and> js_String (JStr ''/users'') = Inr ''/users''
   \<and> extractUrlFromKey js_String (KArray [JStr ''/users'', JNum 1]) = Inr (Some ''/users'')
   \<and> js_String (JObj [(''toString'', JNum 1)])
       = Inl (Error ''TypeError'' ''Cannot convert object to primitive value'' None None None)
   \<and> extractUrlFromKey js_String (KArray [JObj [(''toString'', JNum 1)], JNum 1])
       = Inl (Error ''TypeError'' ''Cannot convert object to primitive value'' None None None)
   \<and> map_of [(''url'', JStr ''/a''), (''id'', JNum 7)] ''url'' = Some (JStr ''/a'')
   \<and> js_String (JStr ''/a'') = Inr ''/a''
   \<and> extractUrlFromKey js_String (KRecord [(''url'', JStr ''/a''), (''id'', JNum 7)])
       = Inr (Some ''/a'')
   \<and> map_of [(''url'', JObj [(''toString'', JNum 1)])] ''url''
       = Some (JObj [(''toString'', JNum 1)])
   \<and> extractUrlFromKey js_String (KRecord [(''url'', JObj [(''toString'', JNum 1)])])
       = Inl (Error ''TypeError'' ''Cannot convert object to primitive value'' None None None)
   \<and> map_of [(''id'', JNum 7)] ''url'' = None
   \<and> extractUrlFromKey js_String (KRecord [(''id'', JNum 7)]) = Inr None"
proof -
  let ?te = "Error ''TypeError'' ''Cannot convert object to primitive value'' None None None"
  let ?bad = "JObj [(''toString'', JNum 1)]"
  note a = extractUrlFromKey_cases [of "''/users''" js_String "JStr ''/users''" "''/users''"
      "[JNum 1]" ?te "[(''url'', JStr ''/a''), (''id'', JNum 7)]" "JStr ''/a''" "''/a''" ?te
      "KString ''/users''"]
  note b = extractUrlFromKey_cases [of "''/users''" js_String ?bad "''/users''"
      "[JNum 1]" ?te "[(''url'', ?bad)]" ?bad "''/a''" ?te "KArray [?bad, JNum 1]"]
  note c = extractUrlFromKey_cases [of "''/users''" js_String "JStr ''/users''" "''/users''"
      "[JNum 1]" ?te "[(''id'', JNum 7)]" "JStr ''/a''" "''/a''" ?te "KNull"]
  have s1: "js_String (JStr ''/users'') = Inr ''/users''" by simp
  have s2: "js_String ?bad = Inl ?te" by simp
  have s3: "js_String (JStr ''/a'') = Inr ''/a''" by simp
  have m1: "map_of [(''url'', JStr ''/a''), (''id'', JNum 7)] ''url'' = Some (JStr ''/a'')"
    by simp
  have m2: "map_of [(''url'', ?bad)] ''url'' = Some ?bad" by simp
  have m3: "map_of [(''id'', JNum 7)] ''url'' = None" by simp
  have n: "''/users'' \<noteq> []" by simp
  from a n have r1: "extractUrlFromKey js_String (KString ''/users'') = Inr (Some ''/users'')"
    by blast
  from a s1 have r2: "extractUrlFromKey js_String (KArray [JStr ''/users'', JNum 1])
      = Inr (Some ''/users'')" by blast
  from b s2 have r3: "extractUrlFromKey js_String (KArray [?bad, JNum 1]) = Inl ?te"
    by blast
  from a m1 s3 have r4: "extractUrlFromKey js_String
      (KRecord [(''url'', JStr ''/a''), (''id'', JNum 7)]) = Inr (Some ''/a'')" by blast
  from b m2 s2 have r5: "extractUrlFromKey js_String (KRecord [(''url'', ?bad)]) = Inl ?te"
    by blast
  from c m3 have r6: "extractUrlFromKey js_String (KRecord [(''id'', JNum 7)]) = Inr None"
    by blast
  from n s1 s2 s3 m1 m2 m3 r1 r2 r3 r4 r5 r6 show ?thesis by blast
qed

text \<open>
  C10, as stated, fails when the \<open>response\<close> property is set to a falsy value other than
  \<open>null\<close>: the property holds \<open>0\<close>, and the result is \<open>null\<close>.
\<close>

theorem extractResponseFromError_falsy_counterexample:
  "read_response (JObj [(''response'', JNum 0)]) = JNum 0
   \<and> extractResponseFromError (JObj [(''response'', JNum 0)]) \<noteq> JNum 0"
  by (simp add: extractResponseFromError_def)

text \<open>
  C10, amended. The function returns a value for every input: \<open>null\<close> for \<open>null\<close>,
  \<open>undefined\<close> and every value without a \<open>response\<close> property, the \<open>response\<close> property
  when it is truthy (every response object is), and \<open>null\<close> when it is falsy.
\<close>

theorem extractResponseFromError_cases:
  "extractResponseFromError JNull = JNull
   \<and> extractResponseFromError JUndefined = JNull
   \<and> (err_response e = None \<longrightarrow> extractResponseFromError (JError e) = JNull)
   \<and> (err_response e = Some r \<longrightarrow> extractResponseFromError (JError e) = JResponse r)
   \<and> (map_of fs ''response'' = None \<longrightarrow> extractResponseFromError (JObj fs) = JNull)
   \<and> (map_of fs ''response'' = Some v \<longrightarrow>
        extractResponseFromError (JObj fs) = (if truthy v then v else JNull))
   \<and> (truthy (read_response x) \<longrightarrow> extractResponseFromError x = read_response x)
   \<and> (\<not> truthy (read_response x) \<longrightarrow> extractResponseFromError x = JNull)"
  by (simp add: extractResponseFromError_def)

theorem extractResponseFromError_cases_witness:
  "err_response (Error ''Error'' ''boom'' None None None) = None
   \<and> extractResponseFromError (JError (Error ''Error'' ''boom'' None None None)) = JNull
   \<and> err_response (Error ''SWRKitServerError'' ''boom'' (Some SERVER_ERROR)
        (Some (SWRKitResponse False (Some SERVER_ERROR) None JUndefined (Some 500) None None))
        (Some 500))
       = Some (SWRKitResponse False (Some SERVER_ERROR) None JUndefined (Some 500) None None)
   \<and> extractResponseFromError (JError (Error ''SWRKitServerError'' ''boom''
        (Some SERVER_ERROR)
        (Some (SWRKitResponse False (Some SERVER_ERROR) None JUndefined (Some 500) None None))
        (Some 500)))
       = JResponse (SWRKitResponse False (Some SERVER_ERROR) None JUndefined (Some 500) None None)
   \<and> map_of [(''response'', JStr ''r'')] ''response'' = Some (JStr ''r'')
   \<and> truthy (read_response (JObj [(''response'', JStr ''r'')]))
   \<and> extractResponseFromError (JObj [(''response'', JStr ''r'')]) = JStr ''r''
   \<and> map_of [(''message'', JStr ''m'')] ''response'' = None
   \<and> \<not> truthy (read_response (JObj [(''message'', JStr ''m'')]))
   \<and> extractResponseFromError (JObj [(''message'', JStr ''m'')]) = JNull"
  using extractResponseFromError_cases [of "Error ''Error'' ''boom'' None None None"
      "SWRKitResponse False (Some SERVER_ERROR) None JUndefined (Some 500) None None"
      "[(''response'', JStr ''r'')]" "JStr ''r''" "JObj [(''response'', JStr ''r'')]"]
    extractResponseFromError_cases [of "Error ''SWRKitServerError'' ''boom''
        (Some SERVER_ERROR)
        (Some (SWRKitResponse False (Some SERVER_ERROR) None JUndefined (Some 500) None None))
        (Some 500)"
      "SWRKitResponse False (Some SERVER_ERROR) None JUndefined (Some 500) None None"
      "[(''message'', JStr ''m'')]" "JStr ''r''" "JObj [(''message'', JStr ''m'')]"]
  by simp

section \<open>Properties of \<open>mergeConfigs\<close>\<close>

text \<open>
  C3. The claim asks that a parameter or header set by an earlier config and not by a later
  one survive the merge. Evaluated on two configs that set different names: the merged
  parameters are those of the later config alone, and the merged headers are computed from
  the later config's headers alone, whatever \<open>mergeHeaders\<close> is. \<open>Object.assign\<close> has
  replaced \<open>merged.params\<close> and \<open>merged.headers\<close> before the two merges read them.
\<close>

theorem mergeConfigs_drops_earlier_keys:
  "params (mergeConfigs lib
     [Some (empty_config\<lparr>params := Val [(''page'', JNum 1)]\<rparr>),
      Some (empty_config\<lparr>params := Val [(''limit'', JNum 10)]\<rparr>)])
     = Val [(''limit'', JNum 10)]
   \<and> cfg_headers (mergeConfigs lib
     [Some (empty_config\<lparr>cfg_headers := Val (HeadersRecord [(''X-A'', ''1'')])\<rparr>),
      Some (empty_config\<lparr>cfg_headers := Val (HeadersRecord [(''X-B'', ''2'')])\<rparr>)])
     = Val (mergeHeaders lib (Some (HeadersRecord [(''X-B'', ''2'')]))
              (Some (HeadersRecord [(''X-B'', ''2'')])))"
  by (simp add: mergeConfigs_def merge_step_def object_assign_def empty_config_def
      assign_prop_def spread_def)

section \<open>Properties of the authentication transform\<close>

text \<open>
  C6. The claim asks that an existing value of the auth header stay as it is in every
  headers shape. Evaluated with a token available and the header already set: on a
  \<open>Headers\<close> instance the value is replaced by \<open>Bearer tok\<close>; on an entry array and on a
  plain record it is kept.
\<close>

theorem authTransform_overwrites_Headers_instance:
  "cfg_headers (authTransform None (Some (\<lambda>cookie. Some ''tok''))
      (empty_config\<lparr>cfg_headers := Val (HeadersInstance [(''authorization'', ''Custom abc'')])\<rparr>))
     = Val (HeadersInstance [(''authorization'', ''Bearer tok'')])
   \<and> cfg_headers (authTransform None (Some (\<lambda>cookie. Some ''tok''))
      (empty_config\<lparr>cfg_headers := Val (HeadersArray [(''authorization'', ''Custom abc'')])\<rparr>))
     = Val (HeadersArray [(''authorization'', ''Custom abc'')])
   \<and> cfg_headers (authTransform None (Some (\<lambda>cookie. Some ''tok''))
      (empty_config\<lparr>cfg_headers := Val (HeadersRecord [(''Authorization'', ''Custom abc'')])\<rparr>))
     = Val (HeadersRecord [(''Authorization'', ''Custom abc'')])"
  by (simp add: authTransform_def authConfig_of_def DEFAULT_AUTH_CONFIG_def or_string_def
      empty_config_def toLowerCase_def toLowerCase_char_def)

section \<open>Properties of the fetcher\<close>

lemma createErrorFromResponse_response [simp]:
  "err_response (createErrorFromResponse r) = Some r"
  by (simp add: createErrorFromResponse_def Let_def split: option.splits PROBLEM_CODE.splits)

lemmas fetcher_unfold =
  fetcher_def fetcher_try_def fetcher_catch_def fetcher_try_finish_def
  run_requestTransforms_def run_responseTransforms_def run_monitors_def
  stub_refetch_def plain_setup_def test_clock_def normalizeResponse_def
  normalizeErrorResponse_def Let_def

text \<open>
  C1. The claim asks that the error thrown for a 404 with a parsed body carry the response
  with \<open>status = 404\<close> and the parsed body as \<open>data\<close>. The \<open>try\<close> block builds that
  response, and then throws inside the block; the handler of the same block catches the
  throw and builds a second response from the error alone. Evaluated on a 404 whose body
  parses, for any classifier: the response the \<open>try\<close> block normalises has the status and
  the body, and the response of the error that leaves the fetcher has neither.
\<close>

theorem fetcher_404_drops_body:
  "status (normalizeResponse (stub_refetch c (Inr not_found) (Inr (JObj [(''error'', JStr ''nf'')])))
       (JObj [(''error'', JStr ''nf'')]) not_found 5) = Some 404
   \<and> data (normalizeResponse (stub_refetch c (Inr not_found) (Inr (JObj [(''error'', JStr ''nf'')])))
       (JObj [(''error'', JStr ''nf'')]) not_found 5) = JObj [(''error'', JStr ''nf'')]
   \<and> (\<exists>e r. fst (fetcher (stub_refetch c (Inr not_found) (Inr (JObj [(''error'', JStr ''nf'')])))
                 plain_setup test_clock (empty_config\<lparr>url := Val ''/users/1''\<rparr>)) = Inl e
          \<and> err_response e = Some r \<and> \<not> ok r \<and> status r = None \<and> data r = JUndefined)"
  by (simp add: fetcher_unfold not_found_def)

text \<open>
  C2. The claim asks that the response transforms and the monitors run exactly once per
  call on every path. Evaluated with one response transform and one monitor: on a 404 each
  runs twice, once in the \<open>try\<close> block and once in its handler; and when the response
  transform throws on a 200, it runs twice, the monitor never runs, and the error that
  leaves the fetcher is the transform's own.
\<close>

theorem fetcher_404_runs_steps_twice:
  "length (filter isResponseTransformRun (snd (fetcher
       (stub_refetch c (Inr not_found) (Inr (JObj [(''error'', JStr ''nf'')])))
       (plain_setup\<lparr>responseTransforms := Some [\<lambda>r. Inr r], monitors := Some [\<lambda>r. None]\<rparr>)
       test_clock (empty_config\<lparr>url := Val ''/users/1''\<rparr>)))) = 2
   \<and> length (filter isMonitorRun (snd (fetcher
       (stub_refetch c (Inr not_found) (Inr (JObj [(''error'', JStr ''nf'')])))
       (plain_setup\<lparr>responseTransforms := Some [\<lambda>r. Inr r], monitors := Some [\<lambda>r. None]\<rparr>)
       test_clock (empty_config\<lparr>url := Val ''/users/1''\<rparr>)))) = 2
   \<and> length (filter isResponseTransformRun (snd (fetcher
       (stub_refetch c (Inr ok_response) (Inr (JArr [])))
       (plain_setup\<lparr>responseTransforms := Some [\<lambda>r. Inl e], monitors := Some [\<lambda>r. None]\<rparr>)
       test_clock (empty_config\<lparr>url := Val ''/users''\<rparr>)))) = 2
   \<and> length (filter isMonitorRun (snd (fetcher
       (stub_refetch c (Inr ok_response) (Inr (JArr [])))
       (plain_setup\<lparr>responseTransforms := Some [\<lambda>r. Inl e], monitors := Some [\<lambda>r. None]\<rparr>)
       test_clock (empty_config\<lparr>url := Val ''/users''\<rparr>)))) = 0
   \<and> fst (fetcher
       (stub_refetch c (Inr ok_response) (Inr (JArr [])))
       (plain_setup\<lparr>responseTransforms := Some [\<lambda>r. Inl e], monitors := Some [\<lambda>r. None]\<rparr>)
       test_clock (empty_config\<lparr>url := Val ''/users''\<rparr>)) = Inl e"
  by (simp add: fetcher_unfold not_found_def ok_response_def)

subsection \<open>The timeout of the transport call\<close>

lemma transport_timeouts_append:
  "transport_timeouts (xs @ ys) = transport_timeouts xs @ transport_timeouts ys"
  by (induction xs rule: transport_timeouts.induct) simp_all

lemma applyRequestTransforms_timeouts:
  "transport_timeouts (snd (applyRequestTransforms i config ts evs)) = transport_timeouts evs"
  by (induction ts arbitrary: i config evs)
    (auto simp: transport_timeouts_append split: sum.splits)

lemma applyResponseTransforms_timeouts:
  "transport_timeouts (snd (applyResponseTransforms i r ts evs)) = transport_timeouts evs"
  by (induction ts arbitrary: i r evs)
    (auto simp: transport_timeouts_append split: sum.splits)

lemma notifyMonitors_timeouts:
  "transport_timeouts (notifyMonitors i r ms evs) = transport_timeouts evs"
  by (induction ms arbitrary: i evs)
    (auto simp: transport_timeouts_append split: option.splits)

lemma run_requestTransforms_timeouts:
  "transport_timeouts (snd (run_requestTransforms f config evs)) = transport_timeouts evs"
  by (simp add: run_requestTransforms_def applyRequestTransforms_timeouts split: option.splits)

lemma run_responseTransforms_timeouts:
  "transport_timeouts (snd (run_responseTransforms f r evs)) = transport_timeouts evs"
  by (simp add: run_responseTransforms_def applyResponseTransforms_timeouts split: option.splits)

lemma run_monitors_timeouts:
  "transport_timeouts (run_monitors f r evs) = transport_timeouts evs"
  by (simp add: run_monitors_def notifyMonitors_timeouts split: option.splits)

lemma fetcher_catch_timeouts:
  "transport_timeouts (snd (fetcher_catch lib f clk e evs)) = transport_timeouts evs"
proof -
  let ?r = "normalizeErrorResponse lib e None (Some (now_caught clk - now_start clk))"
  obtain res log' where s: "run_responseTransforms f ?r evs = (res, log')"
    by (cases "run_responseTransforms f ?r evs")
  then have "transport_timeouts log' = transport_timeouts evs"
    using run_responseTransforms_timeouts [of f ?r evs] by simp
  then show ?thesis
    using s by (cases res) (simp_all add: fetcher_catch_def run_monitors_timeouts)
qed

lemma fetcher_try_finish_timeouts:
  "transport_timeouts (snd (fetcher_try_finish lib f d response dur evs)) = transport_timeouts evs"
proof -
  let ?r = "normalizeResponse lib d response dur"
  obtain res log' where s: "run_responseTransforms f ?r evs = (res, log')"
    by (cases "run_responseTransforms f ?r evs")
  then have "transport_timeouts log' = transport_timeouts evs"
    using run_responseTransforms_timeouts [of f ?r evs] by simp
  then show ?thesis
    using s by (cases res) (simp_all add: fetcher_try_finish_def Let_def run_monitors_timeouts)
qed

text \<open>
  Once the request transforms have returned, the fetcher calls the transport exactly once,
  with the timeout of the \<open>fetchConfig\<close> built from the transformed config.
\<close>

lemma fetcher_transport_timeouts:
  assumes "run_requestTransforms f config [] = (Inr config', evs)"
  shows "transport_timeouts (snd (fetcher lib f clk config))
           = [fc_timeout (fetchConfig_of lib f config')]"
proof -
  have l: "transport_timeouts evs = []"
    using run_requestTransforms_timeouts [of f config "[]"] assms by simp
  let ?u = "buildUrl lib (baseURL f) (or_string (read (url config')) []) (read (params config'))"
  let ?fc = "fetchConfig_of lib f config'"
  let ?log2 = "evs @ [TransportCall ?u ?fc]"
  have l2: "transport_timeouts ?log2 = [fc_timeout ?fc]"
    using l by (simp add: transport_timeouts_append)
  obtain res lg where t: "fetcher_try lib f clk config = (res, lg)"
    by (cases "fetcher_try lib f clk config")
  have "transport_timeouts lg = [fc_timeout ?fc]"
  proof (cases "fetchWithTimeout lib ?u ?fc")
    case (Inl e)
    then have "lg = ?log2" using t assms by (simp add: fetcher_try_def Let_def)
    then show ?thesis using l2 by simp
  next
    case (Inr response)
    show ?thesis
    proof (cases "parseResponseBody lib response")
      case (Inl e)
      then have "lg = ?log2" using t assms Inr by (simp add: fetcher_try_def Let_def)
      then show ?thesis using l2 by simp
    next
      case body: (Inr d)
      then have "lg = snd (fetcher_try_finish lib f d response
                            (now_fetched clk - now_start clk) ?log2)"
        using t assms Inr by (simp add: fetcher_try_def Let_def)
      then show ?thesis using l2 by (simp add: fetcher_try_finish_timeouts)
    qed
  qed
  then show ?thesis
    using t by (cases res) (simp_all add: fetcher_def fetcher_catch_timeouts)
qed

lemma fetchConfig_of_timeout:
  "fc_timeout (fetchConfig_of lib f config)
     = (case options_timeout config of
          Absent \<Rightarrow>
            Some (or_number (read (timeout config)) (or_number (defaultTimeout f) DEFAULT_TIMEOUT))
        | Undef \<Rightarrow> None
        | Val x \<Rightarrow> Some x)"
  by (simp add: fetchConfig_of_def options_timeout_def Let_def
      split: option.splits optional.splits)

text \<open>
  C5, as stated, fails for the timeout \<open>0\<close>: the config sets \<open>timeout\<close> to \<open>0\<close>, the factory
  has no default, and the transport is called with 10000.
\<close>

theorem fetcher_timeout_zero_counterexample:
  "timeout (empty_config\<lparr>url := Val ''/users'', timeout := Val (Finite 0)\<rparr>) = Val (Finite 0)
   \<and> transport_timeouts (snd (fetcher
        (stub_refetch (\<lambda>st e. UNKNOWN_ERROR) (Inr ok_response) (Inr (JArr [])))
        plain_setup test_clock
        (empty_config\<lparr>url := Val ''/users'', timeout := Val (Finite 0)\<rparr>)))
       = [Some (Finite 10000)]"
  by (simp add: fetcher_unfold ok_response_def fetchConfig_of_def or_number_def
      DEFAULT_TIMEOUT_def empty_config_def)

text \<open>
  C5, amended. For a call whose request transforms return, \<open>config'\<close> being the config
  after them, the transport is called once, and the timeout it is handed is: the value of
  the \<open>timeout\<close> key of \<open>config'.options\<close> when the options have that key, \<open>undefined\<close>
  included, since the options are spread over the computed timeout; otherwise
  \<open>config'.timeout\<close> when that is truthy, that is a number other than \<open>0\<close> and \<open>NaN\<close>;
  otherwise the factory's default timeout when that is truthy; otherwise 10000.
\<close>

theorem fetcher_timeout:
  assumes "run_requestTransforms f config [] = (Inr config', evs)"
  shows "(options_timeout config' = Val x \<longrightarrow>
            transport_timeouts (snd (fetcher lib f clk config)) = [Some x])
       \<and> (options_timeout config' = Undef \<longrightarrow>
            transport_timeouts (snd (fetcher lib f clk config)) = [None])
       \<and> (options_timeout config' = Absent \<and> timeout config' = Val n
            \<and> n \<noteq> Finite 0 \<and> n \<noteq> NaN \<longrightarrow>
            transport_timeouts (snd (fetcher lib f clk config)) = [Some n])
       \<and> (options_timeout config' = Absent
            \<and> read (timeout config') \<in> {None, Some (Finite 0), Some NaN}
            \<and> defaultTimeout f = Some m \<and> m \<noteq> Finite 0 \<and> m \<noteq> NaN \<longrightarrow>
            transport_timeouts (snd (fetcher lib f clk config)) = [Some m])
       \<and> (options_timeout config' = Absent
            \<and> read (timeout config') \<in> {None, Some (Finite 0), Some NaN}
            \<and> defaultTimeout f \<in> {None, Some (Finite 0), Some NaN} \<longrightarrow>
            transport_timeouts (snd (fetcher lib f clk config)) = [Some (Finite 10000)])"
proof -
  have tn: "\<And>k. truthy_number k \<longleftrightarrow> k \<noteq> Finite 0 \<and> k \<noteq> NaN"
  proof -
    fix k show "truthy_number k \<longleftrightarrow> k \<noteq> Finite 0 \<and> k \<noteq> NaN" by (cases k) simp_all
  qed
  show ?thesis
    unfolding fetcher_transport_timeouts [OF assms] fetchConfig_of_timeout
    by (auto simp: or_number_def DEFAULT_TIMEOUT_def tn)
qed

theorem fetcher_timeout_witness:
  "transport_timeouts (snd (fetcher
        (stub_refetch (\<lambda>st e. UNKNOWN_ERROR) (Inr ok_response) (Inr (JArr [])))
        (plain_setup\<lparr>defaultTimeout := Some (Finite 3000)\<rparr>) test_clock
        (empty_config\<lparr>timeout := Val (Finite 500),
           options := Val (empty_init\<lparr>ri_timeout := Val (Finite 1)\<rparr>)\<rparr>))) = [Some (Finite 1)]
   \<and> transport_timeouts (snd (fetcher
        (stub_refetch (\<lambda>st e. UNKNOWN_ERROR) (Inr ok_response) (Inr (JArr [])))
        (plain_setup\<lparr>defaultTimeout := Some (Finite 3000)\<rparr>) test_clock
        (empty_config\<lparr>timeout := Val (Finite 500),
           options := Val (empty_init\<lparr>ri_timeout := Undef\<rparr>)\<rparr>))) = [None]
   \<and> transport_timeouts (snd (fetcher
        (stub_refetch (\<lambda>st e. UNKNOWN_ERROR) (Inr ok_response) (Inr (JArr [])))
        (plain_setup\<lparr>defaultTimeout := Some (Finite 3000)\<rparr>) test_clock
        (empty_config\<lparr>timeout := Val (Finite 500)\<rparr>))) = [Some (Finite 500)]
   \<and> transport_timeouts (snd (fetcher
        (stub_refetch (\<lambda>st e. UNKNOWN_ERROR) (Inr ok_response) (Inr (JArr [])))
        (plain_setup\<lparr>defaultTimeout := Some (Finite 3000)\<rparr>) test_clock
        (empty_config\<lparr>timeout := Val NaN\<rparr>))) = [Some (Finite 3000)]
   \<and> transport_timeouts (snd (fetcher
        (stub_refetch (\<lambda>st e. UNKNOWN_ERROR) (Inr ok_response) (Inr (JArr [])))
        (plain_setup\<lparr>defaultTimeout := Some NaN\<rparr>) test_clock
        (empty_config\<lparr>options := Val empty_init\<rparr>))) = [Some (Finite 10000)]"
proof -
  let ?lib = "stub_refetch (\<lambda>st e. UNKNOWN_ERROR) (Inr ok_response) (Inr (JArr []))"
  let ?f = "plain_setup\<lparr>defaultTimeout := Some (Finite 3000)\<rparr>"
  let ?g = "plain_setup\<lparr>defaultTimeout := Some NaN\<rparr>"
  let ?c1 = "empty_config\<lparr>timeout := Val (Finite 500),
           options := Val (empty_init\<lparr>ri_timeout := Val (Finite 1)\<rparr>)\<rparr>"
  let ?c2 = "empty_config\<lparr>timeout := Val (Finite 500),
           options := Val (empty_init\<lparr>ri_timeout := Undef\<rparr>)\<rparr>"
  let ?c3 = "empty_config\<lparr>timeout := Val (Finite 500)\<rparr>"
  let ?c4 = "empty_config\<lparr>timeout := Val NaN\<rparr>"
  let ?c5 = "empty_config\<lparr>options := Val empty_init\<rparr>"
  have h: "\<And>c. run_requestTransforms ?f c [] = (Inr c, [])"
    by (simp add: run_requestTransforms_def plain_setup_def)
  have hg: "\<And>c. run_requestTransforms ?g c [] = (Inr c, [])"
    by (simp add: run_requestTransforms_def plain_setup_def)
  have p1: "options_timeout ?c1 = Val (Finite 1)"
    by (simp add: options_timeout_def empty_init_def)
  have p2: "options_timeout ?c2 = Undef"
    by (simp add: options_timeout_def empty_init_def)
  have p3: "options_timeout ?c3 = Absent \<and> timeout ?c3 = Val (Finite 500)
      \<and> Finite 500 \<noteq> Finite 0 \<and> Finite 500 \<noteq> NaN"
    by (simp add: options_timeout_def empty_config_def)
  have p4: "options_timeout ?c4 = Absent
      \<and> read (timeout ?c4) \<in> {None, Some (Finite 0), Some NaN}
      \<and> defaultTimeout ?f = Some (Finite 3000)
      \<and> Finite 3000 \<noteq> Finite 0 \<and> Finite 3000 \<noteq> NaN"
    by (simp add: options_timeout_def empty_config_def)
  have p5: "options_timeout ?c5 = Absent
      \<and> read (timeout ?c5) \<in> {None, Some (Finite 0), Some NaN}
      \<and> defaultTimeout ?g \<in> {None, Some (Finite 0), Some NaN}"
    by (simp add: options_timeout_def empty_config_def empty_init_def)
  from fetcher_timeout [OF h, of ?c1 "Finite 1" ?lib test_clock] p1
  have r1: "transport_timeouts (snd (fetcher ?lib ?f test_clock ?c1)) = [Some (Finite 1)]"
    by blast
  from fetcher_timeout [OF h, of ?c2 _ ?lib test_clock] p2
  have r2: "transport_timeouts (snd (fetcher ?lib ?f test_clock ?c2)) = [None]"
    by blast
  from fetcher_timeout [OF h, of ?c3 _ ?lib test_clock "Finite 500"] p3
  have r3: "transport_timeouts (snd (fetcher ?lib ?f test_clock ?c3)) = [Some (Finite 500)]"
    by blast
  from fetcher_timeout [OF h, of ?c4 _ ?lib test_clock _ "Finite 3000"] p4
  have r4: "transport_timeouts (snd (fetcher ?lib ?f test_clock ?c4)) = [Some (Finite 3000)]"
    by blast
  from fetcher_timeout [OF hg, of ?c5 _ ?lib test_clock] p5
  have r5: "transport_timeouts (snd (fetcher ?lib ?g test_clock ?c5)) = [Some (Finite 10000)]"
    by blast
  from r1 r2 r3 r4 r5 show ?thesis by blast
qed

section \<open>Properties of the mutation trigger\<close>

text \<open>
  C4. The claim asks that a trigger with an override config return a response also when
  the fetcher throws. Evaluated with a fetcher that throws the typed error of a 500
  response: with an override config the trigger throws that error; without one, the same
  error thrown by the cache library's trigger is caught and its response is returned.
\<close>

theorem wrappedTrigger_override_throws:
  "wrappedTrigger lib ''/api/users'' ''POST'' None
      (\<lambda>config. Inl (createErrorFromResponse
          (SWRKitResponse False (Some SERVER_ERROR) None JUndefined (Some 500) None None)))
      trigger (JObj [(''name'', JStr ''Jane'')]) (Some (empty_config\<lparr>timeout := Val (Finite 5000)\<rparr>))
     = Inl (JError (createErrorFromResponse
          (SWRKitResponse False (Some SERVER_ERROR) None JUndefined (Some 500) None None)))
   \<and> wrappedTrigger lib ''/api/users'' ''POST'' None contextFetcher
      (\<lambda>variables. Inl (JError (createErrorFromResponse
          (SWRKitResponse False (Some SERVER_ERROR) None JUndefined (Some 500) None None))))
      (JObj [(''name'', JStr ''Jane'')]) None
     = Inr (JResponse
          (SWRKitResponse False (Some SERVER_ERROR) None JUndefined (Some 500) None None))"
  by (simp add: wrappedTrigger_def extractResponseFromError_def Let_def)

section \<open>Properties of the success handler\<close>







end
